theory Spec2Isabelle
  imports Main
begin

section \<open>The create-service commands (package cmd)\<close>

text \<open>
  The Go file builds, for each of the four service kinds, a
  \<open>pi.ServiceCommonGeneratorV1\<close> from the command line and hands it to
  \<open>RunCreateSubcommand\<close>. The struct literal of each command names only some of the
  fields; the others keep Go's zero value (the empty string, the empty slice, \<open>0\<close>).
\<close>

datatype ServiceType =
    ServiceTypeClusterIP
  | ServiceTypeNodePort
  | ServiceTypeLoadBalancer
  | ServiceTypeExternalName

record ServiceCommonGeneratorV1 =
  Name :: string
  TCP :: "string list"
  Type :: ServiceType
  ClusterIP :: string
  NodePort :: int
  ExternalName :: string
  LoadBalancerIP :: string
  Selector :: "string list"

record CreateSubcommandOptions =
  Name :: string
  StructuredGenerator :: ServiceCommonGeneratorV1

text \<open>
  The helpers of \<open>cmdutil\<close> that read a flag of the cobra command. Their code is not
  part of the two files, so they are parameters of the model; \<open>'cmd\<close> is the
  \<open>*cobra.Command\<close>. Each returns the value of a flag the command declares; on a flag
  that is not declared the helper ends the process, and nothing of the command runs
  after it.
\<close>

record 'cmd flag_access =
  GetFlagString :: "'cmd \<Rightarrow> string \<Rightarrow> string"
  GetFlagStringSlice :: "'cmd \<Rightarrow> string \<Rightarrow> string list"
  GetFlagInt :: "'cmd \<Rightarrow> string \<Rightarrow> int"

text \<open>
  What the create-service commands call beyond the flag helpers:
  \<^item> \<open>NameFromCommandArgs(cmd, args)\<close> returns \<open>(string, error)\<close>: \<open>Inl\<close> is the error;
  \<^item> \<open>cmdutil.UsageErrorf(cmd, format, args...)\<close>, given here the formatted message;
  \<^item> \<open>RunCreateSubcommand(f, cmd, cmdOut, options)\<close> returns an \<open>error\<close> (\<open>None\<close> is
    \<open>nil\<close>) and is the only call with effects (generation, submission, printing):
    it takes the world \<open>'w\<close> and returns the new one;
  \<^item> the four generator-name constants of \<open>cmdutil\<close>.
\<close>

record ('cmd, 'err, 'f, 'out, 'w) create_collaborators = "'cmd flag_access" +
  NameFromCommandArgs :: "'cmd \<Rightarrow> string list \<Rightarrow> 'err + string"
  UsageErrorf :: "'cmd \<Rightarrow> string \<Rightarrow> 'err"
  RunCreateSubcommand ::
    "'f \<Rightarrow> 'cmd \<Rightarrow> 'out \<Rightarrow> CreateSubcommandOptions \<Rightarrow> 'w \<Rightarrow> 'err option \<times> 'w"
  ServiceClusterIPGeneratorV1Name :: string
  ServiceNodePortGeneratorV1Name :: string
  ServiceLoadBalancerGeneratorV1Name :: string
  ServiceExternalNameGeneratorV1Name :: string

text \<open>\<open>fmt.Sprintf("Generator %s not supported. ", generatorName)\<close> inside \<open>UsageErrorf\<close>.\<close>

definition errUnsupportedGenerator ::
  "('cmd, 'err, 'f, 'out, 'w) create_collaborators \<Rightarrow> 'cmd \<Rightarrow> string \<Rightarrow> 'err" where
  "errUnsupportedGenerator u cmd generatorName =
     UsageErrorf u cmd (''Generator '' @ generatorName @ '' not supported. '')"

text \<open>
  Each command returns a Go \<open>error\<close>; the model returns it with the world after the
  call. The \<open>switch\<close> on the generator name is the \<open>if\<close>: its \<open>default\<close> branch is the
  \<open>else\<close>.
\<close>

definition CreateServiceClusterIP ::
  "('cmd, 'err, 'f, 'out, 'w) create_collaborators \<Rightarrow> 'f \<Rightarrow> 'out \<Rightarrow> 'cmd \<Rightarrow> string list
     \<Rightarrow> 'w \<Rightarrow> 'err option \<times> 'w" where
  "CreateServiceClusterIP u f cmdOut cmd args w =
     (case NameFromCommandArgs u cmd args of
        Inl err \<Rightarrow> (Some err, w)
      | Inr name \<Rightarrow>
          (let generatorName = ServiceClusterIPGeneratorV1Name u in
           if generatorName = ServiceClusterIPGeneratorV1Name u then
             RunCreateSubcommand u f cmd cmdOut
               \<lparr>CreateSubcommandOptions.Name = name,
                StructuredGenerator =
                  \<lparr>ServiceCommonGeneratorV1.Name = name,
                   TCP = GetFlagStringSlice u cmd ''tcp'',
                   Type = ServiceTypeClusterIP,
                   ClusterIP = GetFlagString u cmd ''clusterip'',
                   NodePort = 0,
                   ExternalName = '''',
                   LoadBalancerIP = '''',
                   Selector = []\<rparr>\<rparr> w
           else (Some (errUnsupportedGenerator u cmd generatorName), w)))"


definition CreateServiceLoadBalancer ::
  "('cmd, 'err, 'f, 'out, 'w) create_collaborators \<Rightarrow> 'f \<Rightarrow> 'out \<Rightarrow> 'cmd \<Rightarrow> string list
     \<Rightarrow> 'w \<Rightarrow> 'err option \<times> 'w" where
  "CreateServiceLoadBalancer u f cmdOut cmd args w =
     (case NameFromCommandArgs u cmd args of
        Inl err \<Rightarrow> (Some err, w)
      | Inr name \<Rightarrow>
          (let generatorName = ServiceLoadBalancerGeneratorV1Name u in
           if generatorName = ServiceLoadBalancerGeneratorV1Name u then
             RunCreateSubcommand u f cmd cmdOut
               \<lparr>CreateSubcommandOptions.Name = name,
                StructuredGenerator =
                  \<lparr>ServiceCommonGeneratorV1.Name = name,
                   TCP = GetFlagStringSlice u cmd ''tcp'',
                   Type = ServiceTypeLoadBalancer,
                   ClusterIP = '''',
                   NodePort = 0,
                   ExternalName = '''',
                   LoadBalancerIP = GetFlagString u cmd ''loadbalancerip'',
                   Selector = GetFlagStringSlice u cmd ''selector''\<rparr>\<rparr> w
           else (Some (errUnsupportedGenerator u cmd generatorName), w)))"


subsection \<open>A concrete command line\<close>

text \<open>
  An instance of the collaborators to run the commands on: the command is its flag
  table, name extraction takes the first argument and fails when there is none, and
  \<open>RunCreateSubcommand\<close> records the options it was called with, so that the world
  after a command lists every call made.
\<close>

datatype flag_value = FlagString string | FlagStringSlice "string list" | FlagInt int

datatype cli_error = UsageError string

type_synonym cli_cmd = "(string \<times> flag_value) list"

definition cli_GetFlagString :: "cli_cmd \<Rightarrow> string \<Rightarrow> string" where
  "cli_GetFlagString cmd flag = (case map_of cmd flag of Some (FlagString s) \<Rightarrow> s | _ \<Rightarrow> '''')"

definition cli_GetFlagStringSlice :: "cli_cmd \<Rightarrow> string \<Rightarrow> string list" where
  "cli_GetFlagStringSlice cmd flag =
     (case map_of cmd flag of Some (FlagStringSlice xs) \<Rightarrow> xs | _ \<Rightarrow> [])"

definition cli_GetFlagInt :: "cli_cmd \<Rightarrow> string \<Rightarrow> int" where
  "cli_GetFlagInt cmd flag = (case map_of cmd flag of Some (FlagInt i) \<Rightarrow> i | _ \<Rightarrow> 0)"




section \<open>The config view command (package config)\<close>

text \<open>
  Of \<open>ViewOptions\<close> the code that is not commented out reads \<open>ConfigAccess\<close> and
  \<open>Minify\<close> only.
\<close>

record 'ca ViewOptions =
  ConfigAccess :: 'ca
  Minify :: bool

text \<open>
  What the view command calls: the flag helpers; \<open>cmd.Flags().Set(name, value)\<close> of
  pflag, which changes the command (the source drops the error it returns);
  \<open>ExtractCmdPrintOptions\<close>, \<open>PrinterForOptions\<close> (its other arguments are constants)
  and \<open>NewVersionedPrinter\<close>; \<open>ConfigAccess.GetStartingConfig()\<close>;
  \<open>clientcmdapi.MinifyConfig\<close>, which rewrites the config in place; and
  \<open>printer.PrintObj(config, out)\<close>, which writes to the stream. A stream is the text
  written to it so far.
\<close>

record ('cmd, 'err, 'ca, 'config, 'po, 'printer) view_collaborators = "'cmd flag_access" +
  FlagsSet :: "'cmd \<Rightarrow> string \<Rightarrow> string \<Rightarrow> 'cmd"
  ExtractCmdPrintOptions :: "'cmd \<Rightarrow> bool \<Rightarrow> 'po"
  PrinterForOptions :: "'po \<Rightarrow> 'err + 'printer"
  NewVersionedPrinter :: "'printer \<Rightarrow> 'printer"
  GetStartingConfig :: "'ca \<Rightarrow> 'err + 'config"
  MinifyConfig :: "'config \<Rightarrow> 'err + 'config"
  PrintObj :: "'printer \<Rightarrow> 'config \<Rightarrow> string \<Rightarrow> 'err option \<times> string"

definition Complete :: "'ca ViewOptions \<Rightarrow> bool" where
  "Complete o' = True"

definition Validate :: "'ca ViewOptions \<Rightarrow> 'err option" where
  "Validate o' = None"

definition getStartingConfig ::
  "('cmd, 'err, 'ca, 'config, 'po, 'printer) view_collaborators \<Rightarrow> 'ca ViewOptions
     \<Rightarrow> 'err + 'config" where
  "getStartingConfig u o' = GetStartingConfig u (ConfigAccess o')"

definition loadConfig ::
  "('cmd, 'err, 'ca, 'config, 'po, 'printer) view_collaborators \<Rightarrow> 'ca ViewOptions
     \<Rightarrow> 'err + 'config" where
  "loadConfig u o' =
     (case Validate o' of
        Some err \<Rightarrow> Inl err
      | None \<Rightarrow> getStartingConfig u o')"

definition Run ::
  "('cmd, 'err, 'ca, 'config, 'po, 'printer) view_collaborators \<Rightarrow> 'ca ViewOptions
     \<Rightarrow> string \<Rightarrow> 'printer \<Rightarrow> 'err option \<times> string" where
  "Run u o' out printer =
     (case loadConfig u o' of
        Inl err \<Rightarrow> (Some err, out)
      | Inr config \<Rightarrow>
          (case (if Minify o' then MinifyConfig u config else Inr config) of
             Inl err \<Rightarrow> (Some err, out)
           | Inr config' \<Rightarrow> PrintObj u printer config' out))"

definition defaultOutputFormat :: string where
  "defaultOutputFormat = ''yaml''"

text \<open>The two messages of the \<open>Run\<close> closure, as \<open>fmt.Fprintf\<close> formats them.\<close>

definition notAvailableNotice :: "string \<Rightarrow> string" where
  "notAvailableNotice outputFormat =
     ''--output '' @ [CHR 0x27] @ outputFormat @ [CHR 0x27]
       @ '' is not available in pi config view; reset to default output format (''
       @ defaultOutputFormat @ '')'' @ [CHR 0x0A, CHR 0x0A]"

definition emptyOutputNotice :: string where
  "emptyOutputNotice =
     ''Reset to default output format ('' @ defaultOutputFormat
       @ '') as --output is empty'' @ [CHR 0x0A]"

text \<open>
  The closure \<open>Run\<close> of \<open>NewCmdConfigView\<close>, in its two parts: the treatment of the
  \<open>output\<close> flag (the two \<open>if\<close>s; the \<open>Set\<close> of the first one is commented out in the
  source), which gives the command and the error stream afterwards, and the printing.
  \<open>cmdutil.CheckErr\<close> returns on \<open>nil\<close> and ends the process on an error.
\<close>

datatype 'err view_exit = Returned | CheckErrExit 'err

definition Run_outputFormat ::
  "('cmd, 'err, 'ca, 'config, 'po, 'printer) view_collaborators \<Rightarrow> 'cmd \<Rightarrow> string
     \<Rightarrow> 'cmd \<times> string" where
  "Run_outputFormat u cmd errOut =
     (let outputFormat = GetFlagString u cmd ''output'';
          errOut1 = (if outputFormat = ''wide'' \<or> outputFormat = ''name''
                     then errOut @ notAvailableNotice outputFormat else errOut)
      in if outputFormat = ''''
         then (FlagsSet u cmd ''output'' defaultOutputFormat, errOut1 @ emptyOutputNotice)
         else (cmd, errOut1))"

definition Run_print ::
  "('cmd, 'err, 'ca, 'config, 'po, 'printer) view_collaborators \<Rightarrow> 'ca ViewOptions \<Rightarrow> 'cmd
     \<Rightarrow> string \<Rightarrow> string \<Rightarrow> 'err view_exit \<times> 'cmd \<times> string \<times> string" where
  "Run_print u options cmd out errOut =
     (let printOpts = ExtractCmdPrintOptions u cmd False in
      case PrinterForOptions u printOpts of
        Inl err \<Rightarrow> (CheckErrExit err, cmd, out, errOut)
      | Inr printer \<Rightarrow>
          (case Run u options out (NewVersionedPrinter u printer) of
             (Some err, out') \<Rightarrow> (CheckErrExit err, cmd, out', errOut)
           | (None, out') \<Rightarrow> (Returned, cmd, out', errOut)))"

definition NewCmdConfigView_Run ::
  "('cmd, 'err, 'ca, 'config, 'po, 'printer) view_collaborators \<Rightarrow> 'ca ViewOptions \<Rightarrow> 'cmd
     \<Rightarrow> string \<Rightarrow> string \<Rightarrow> 'err view_exit \<times> 'cmd \<times> string \<times> string" where
  "NewCmdConfigView_Run u options cmd out errOut =
     (let completed = Complete options;
          (cmd', errOut') = Run_outputFormat u cmd errOut
      in Run_print u options cmd' out errOut')"

subsection \<open>A concrete view command\<close>

text \<open>
  The command is its flag table again; \<open>Set\<close> changes a declared flag and leaves the
  table alone otherwise. The print options and the printer are the output format, the
  config is a text, and printing writes the format and the config to the stream.
\<close>

definition cli_FlagsSet :: "cli_cmd \<Rightarrow> string \<Rightarrow> string \<Rightarrow> cli_cmd" where
  "cli_FlagsSet cmd flag v =
     (case map_of cmd flag of None \<Rightarrow> cmd | Some old \<Rightarrow> (flag, FlagString v) # cmd)"

definition cli_PrintObj :: "string \<Rightarrow> string \<Rightarrow> string \<Rightarrow> cli_error option \<times> string" where
  "cli_PrintObj printer config out = (None, out @ printer @ '': '' @ config)"

definition view_cli ::
  "(cli_cmd, cli_error, string, string, string, string) view_collaborators" where
  "view_cli =
     \<lparr>GetFlagString = cli_GetFlagString,
      GetFlagStringSlice = cli_GetFlagStringSlice,
      GetFlagInt = cli_GetFlagInt,
      FlagsSet = cli_FlagsSet,
      ExtractCmdPrintOptions = (\<lambda>cmd generic. cli_GetFlagString cmd ''output''),
      PrinterForOptions = Inr,
      NewVersionedPrinter = (\<lambda>printer. printer),
      GetStartingConfig = Inr,
      MinifyConfig = Inr,
      PrintObj = cli_PrintObj\<rparr>"

section \<open>The port-pair parser and the generators, from the specification\<close>

text \<open>
  The command file hands the generator to \<open>RunCreateSubcommand\<close>; the file with
  \<open>Generate()\<close> and the port-pair parser is not among the sources. What follows models,
  from sections 3, 4.1, 4.2 and 7 of the specification, the parser and the generators
  of the two kinds whose commands \<open>NewCmdCreateService\<close> registers: ClusterIP and
  LoadBalancer.
\<close>

text \<open>Modelled from the spec: the error kinds of section 7 that the port-pair parser
  and these two generators raise (the code of both is missing).\<close>

datatype gen_error =
    InvalidPortSpec
  | ValidationError string
  | InvalidIP
  | InvalidSelector string
  | DuplicateSelectorKey string

text \<open>Modelled from the spec: the protocol of a PortPair, "enum{TCP,UDP}" (the
  declaration is missing).\<close>

datatype Protocol = ProtocolTCP | ProtocolUDP

text \<open>Modelled from the spec: the target of a PortPair, "int or string" (the declaration
  is missing).\<close>

datatype TargetPort = NumericTarget int | NamedTarget string

text \<open>Modelled from the spec: the PortPair of section 3 (the declaration is missing).
  The port is the integer as parsed: section 4.1 names no upper bound among the
  failures of the parser.\<close>

record PortPair =
  port :: int
  targetPort :: TargetPort
  protocol :: Protocol

text \<open>Modelled from the spec: splitting a port string (the parser is missing). The
  text before the first separator, and the text after it when there is a separator.\<close>

fun splitFirst :: "char \<Rightarrow> string \<Rightarrow> string \<times> string option" where
  "splitFirst c [] = ([], None)"
| "splitFirst c (x # xs) =
     (if x = c then ([], Some xs)
      else (case splitFirst c xs of (a, r) \<Rightarrow> (x # a, r)))"

text \<open>Modelled from the spec: a decimal digit of "parses as an integer" (the parser is
  missing).\<close>

definition digitVal :: "char \<Rightarrow> nat option" where
  "digitVal c =
     map_of [(CHR ''0'', 0), (CHR ''1'', 1), (CHR ''2'', 2), (CHR ''3'', 3), (CHR ''4'', 4),
             (CHR ''5'', 5), (CHR ''6'', 6), (CHR ''7'', 7), (CHR ''8'', 8), (CHR ''9'', 9)] c"

text \<open>Modelled from the spec: a run of decimal digits, read from the left, of "parses
  as an integer" (the parser is missing).\<close>

fun digitsVal :: "nat \<Rightarrow> string \<Rightarrow> nat option" where
  "digitsVal acc [] = Some acc"
| "digitsVal acc (c # cs) =
     (case digitVal c of None \<Rightarrow> None | Some d \<Rightarrow> digitsVal (10 * acc + d) cs)"

text \<open>Modelled from the spec: "parses as an integer" (the parser is missing): digits,
  or a minus sign and digits, so that an integer that is not positive can be told from
  a text that is no integer.\<close>

definition parseInt :: "string \<Rightarrow> int option" where
  "parseInt s =
     (case s of
        [] \<Rightarrow> None
      | c # cs \<Rightarrow>
          if c = CHR ''-''
          then (if cs = [] then None else map_option (\<lambda>n. - int n) (digitsVal 0 cs))
          else map_option int (digitsVal 0 s))"

text \<open>Modelled from the spec: "only TCP and UDP accepted" (the parser is missing).\<close>

definition parseProtocol :: "string \<Rightarrow> Protocol option" where
  "parseProtocol s =
     (if s = ''TCP'' then Some ProtocolTCP
      else if s = ''UDP'' then Some ProtocolUDP
      else None)"

text \<open>Modelled from the spec: the target of a port pair (the parser is missing):
  "if it parses as an integer, stored as numeric target; otherwise stored as a named
  target".\<close>

definition parseTarget :: "string \<Rightarrow> TargetPort" where
  "parseTarget t = (case parseInt t of Some k \<Rightarrow> NumericTarget k | None \<Rightarrow> NamedTarget t)"

text \<open>Modelled from the spec: the port-pair parser of section 4.1 on one entry (its code
  is missing). The port is the text before the first \<open>:\<close> and must parse as a positive
  integer; without a target the target is the port; the protocol is what follows the
  first \<open>/\<close> of the target part, \<open>TCP\<close> when there is none.\<close>

definition parsePortPair :: "string \<Rightarrow> gen_error + PortPair" where
  "parsePortPair s =
     (case splitFirst CHR '':'' s of
        (p, rest) \<Rightarrow>
          (case parseInt p of
             None \<Rightarrow> Inl InvalidPortSpec
           | Some n \<Rightarrow>
               if n \<le> 0 then Inl InvalidPortSpec
               else (case rest of
                  None \<Rightarrow>
                    Inr \<lparr>port = n, targetPort = NumericTarget n, protocol = ProtocolTCP\<rparr>
                | Some r \<Rightarrow>
                    (case splitFirst CHR ''/'' r of
                       (t, None) \<Rightarrow>
                         Inr \<lparr>port = n, targetPort = parseTarget t, protocol = ProtocolTCP\<rparr>
                     | (t, Some pr) \<Rightarrow>
                         (case parseProtocol pr of
                            None \<Rightarrow> Inl InvalidPortSpec
                          | Some pc \<Rightarrow>
                              Inr \<lparr>port = n, targetPort = parseTarget t,
                                   protocol = pc\<rparr>)))))"

text \<open>Modelled from the spec: the port-pair parser of section 4.1 on the sequence (its
  code is missing): the pairs in input order, or the first failure.\<close>

fun parsePortPairs :: "string list \<Rightarrow> gen_error + PortPair list" where
  "parsePortPairs [] = Inr []"
| "parsePortPairs (s # ss) =
     (case parsePortPair s of
        Inl e \<Rightarrow> Inl e
      | Inr pp \<Rightarrow>
          (case parsePortPairs ss of
             Inl e \<Rightarrow> Inl e
           | Inr pps \<Rightarrow> Inr (pp # pps)))"



text \<open>Modelled from the spec: a lowercase alphanumeric of the naming pattern (the
  validation is missing).\<close>

definition lowerAlnum :: "char \<Rightarrow> bool" where
  "lowerAlnum c = (c \<in> set ''abcdefghijklmnopqrstuvwxyz0123456789'')"

text \<open>Modelled from the spec: the naming pattern of section 4.2 (the validation is
  missing): "lowercase alphanumerics and \<open>-\<close>, at most 253 chars, must start/end
  alphanumeric", and not empty.\<close>

definition validName :: "string \<Rightarrow> bool" where
  "validName s =
     (s \<noteq> [] \<and> length s \<le> 253
      \<and> list_all (\<lambda>c. lowerAlnum c \<or> c = CHR ''-'') s
      \<and> lowerAlnum (hd s) \<and> lowerAlnum (last s))"

text \<open>Modelled from the spec: splitting at every separator, for the selector entries
  and the dotted quad (the generators are missing).\<close>

fun splitOn :: "char \<Rightarrow> string \<Rightarrow> string list" where
  "splitOn c [] = [[]]"
| "splitOn c (x # xs) =
     (if x = c then [] # splitOn c xs
      else (case splitOn c xs of [] \<Rightarrow> [[x]] | a # as \<Rightarrow> (x # a) # as))"

text \<open>Modelled from the spec: a number of an IPv4 literal (the check is missing): one
  to three decimal digits, at most 255.\<close>

definition isOctet :: "string \<Rightarrow> bool" where
  "isOctet s =
     (s \<noteq> [] \<and> length s \<le> 3
      \<and> (case digitsVal 0 s of None \<Rightarrow> False | Some n \<Rightarrow> n \<le> 255))"

text \<open>Modelled from the spec: an IPv4 literal (the check is missing): four such
  numbers between dots.\<close>

definition isIPv4 :: "string \<Rightarrow> bool" where
  "isIPv4 s = (length (splitOn CHR ''.'' s) = 4 \<and> list_all isOctet (splitOn CHR ''.'' s))"

text \<open>Modelled from the spec: "a syntactically valid IPv4/IPv6 literal" (the check is
  missing). The specification gives no syntax of an IPv6 literal, so its check is the
  parameter \<open>isIPv6Literal\<close>.\<close>

definition validIP :: "(string \<Rightarrow> bool) \<Rightarrow> string \<Rightarrow> bool" where
  "validIP isIPv6Literal s = (isIPv4 s \<or> isIPv6Literal s)"

text \<open>Modelled from the spec: the selector of the LoadBalancer variant (the generator is
  missing): every entry has exactly one \<open>=\<close>, or \<open>InvalidSelector\<close> names the entry; a
  key met before gives \<open>DuplicateSelectorKey\<close>. The second argument is the selector
  read so far.\<close>

fun parseSelector ::
  "string list \<Rightarrow> (string \<times> string) list \<Rightarrow> gen_error + (string \<times> string) list" where
  "parseSelector [] acc = Inr acc"
| "parseSelector (e # es) acc =
     (case splitOn CHR ''='' e of
        [k, v] \<Rightarrow>
          if k \<in> fst ` set acc then Inl (DuplicateSelectorKey k)
          else parseSelector es (acc @ [(k, v)])
      | _ \<Rightarrow> Inl (InvalidSelector e))"

text \<open>Modelled from the spec: the cluster IP of an Object (its declaration is missing):
  left to the cluster, the \<open>None\<close> sentinel of a headless service, or an address.\<close>

datatype ClusterIPField = ClusterIPUnassigned | ClusterIPNone | ClusterIPAddress string

text \<open>Modelled from the spec: the Object of section 3, as the fields these two
  generators set (its declaration is missing).\<close>

record Object =
  objName :: string
  objType :: ServiceType
  objPorts :: "PortPair list"
  objClusterIP :: ClusterIPField
  objLoadBalancerIP :: string
  objSelector :: "(string \<times> string) list"

text \<open>Modelled from the spec: the ClusterIP parameter of section 4.2 (the generator is
  missing): \<open>None\<close> gives a headless service, the empty string leaves the assignment to
  the cluster, anything else must be an IP literal.\<close>

definition clusterIPField :: "(string \<Rightarrow> bool) \<Rightarrow> string \<Rightarrow> gen_error + ClusterIPField" where
  "clusterIPField isIPv6Literal s =
     (if s = ''None'' then Inr ClusterIPNone
      else if s = '''' then Inr ClusterIPUnassigned
      else if validIP isIPv6Literal s then Inr (ClusterIPAddress s)
      else Inl InvalidIP)"

text \<open>Modelled from the spec: the ClusterIP variant of \<open>Generate()\<close> (its code is
  missing): the name is validated first, then the cluster IP, then the ports are
  parsed; the object is built only when all of it passed.\<close>

definition GenerateClusterIP ::
  "(string \<Rightarrow> bool) \<Rightarrow> ServiceCommonGeneratorV1 \<Rightarrow> gen_error + Object" where
  "GenerateClusterIP isIPv6Literal g =
     (if \<not> validName (ServiceCommonGeneratorV1.Name g) then Inl (ValidationError ''Name'')
      else (case clusterIPField isIPv6Literal (ClusterIP g) of
         Inl e \<Rightarrow> Inl e
       | Inr ip \<Rightarrow>
           (case parsePortPairs (TCP g) of
              Inl e \<Rightarrow> Inl e
            | Inr ports \<Rightarrow>
                Inr \<lparr>objName = ServiceCommonGeneratorV1.Name g,
                     objType = ServiceTypeClusterIP,
                     objPorts = ports,
                     objClusterIP = ip,
                     objLoadBalancerIP = '''',
                     objSelector = []\<rparr>)))"

text \<open>Modelled from the spec: the LoadBalancer variant of \<open>Generate()\<close> (its code is
  missing): it adds the optional LoadBalancerIP, checked as the cluster IP is, and the
  selector.\<close>

definition GenerateLoadBalancer ::
  "(string \<Rightarrow> bool) \<Rightarrow> ServiceCommonGeneratorV1 \<Rightarrow> gen_error + Object" where
  "GenerateLoadBalancer isIPv6Literal g =
     (case GenerateClusterIP isIPv6Literal g of
        Inl e \<Rightarrow> Inl e
      | Inr obj \<Rightarrow>
          if LoadBalancerIP g \<noteq> '''' \<and> \<not> validIP isIPv6Literal (LoadBalancerIP g) then Inl InvalidIP
          else (case parseSelector (Selector g) [] of
             Inl e \<Rightarrow> Inl e
           | Inr sel \<Rightarrow>
               Inr (obj\<lparr>objType := ServiceTypeLoadBalancer,
                        objLoadBalancerIP := LoadBalancerIP g,
                        objSelector := sel\<rparr>)))"

text \<open>The check of an IPv6 literal that accepts none, to run the generators on.\<close>

definition noIPv6Literal :: "string \<Rightarrow> bool" where
  "noIPv6Literal s = False"




section \<open>Properties of the create-service commands\<close>


text \<open>
  C9. In the ClusterIP and the LoadBalancer command the generator name is the constant
  the \<open>switch\<close> compares it with, so the \<open>default\<close> branch is dead: whatever the
  collaborators, the flags and the arguments are, the command returns the error of
  name extraction when that fails, and otherwise exactly what \<open>RunCreateSubcommand\<close>
  returns for the generator built; \<open>errUnsupportedGenerator\<close> (and with it
  \<open>UsageErrorf\<close>) plays no part in the result.
\<close>

theorem hardcoded_generator_never_unsupported:
  "CreateServiceClusterIP u f cmdOut cmd args w =
     (case NameFromCommandArgs u cmd args of
        Inl err \<Rightarrow> (Some err, w)
      | Inr name \<Rightarrow>
          RunCreateSubcommand u f cmd cmdOut
            \<lparr>CreateSubcommandOptions.Name = name,
             StructuredGenerator =
               \<lparr>ServiceCommonGeneratorV1.Name = name,
                TCP = GetFlagStringSlice u cmd ''tcp'',
                Type = ServiceTypeClusterIP,
                ClusterIP = GetFlagString u cmd ''clusterip'',
                NodePort = 0, ExternalName = '''', LoadBalancerIP = '''',
                Selector = []\<rparr>\<rparr> w)
   \<and> CreateServiceLoadBalancer u f cmdOut cmd args w =
     (case NameFromCommandArgs u cmd args of
        Inl err \<Rightarrow> (Some err, w)
      | Inr name \<Rightarrow>
          RunCreateSubcommand u f cmd cmdOut
            \<lparr>CreateSubcommandOptions.Name = name,
             StructuredGenerator =
               \<lparr>ServiceCommonGeneratorV1.Name = name,
                TCP = GetFlagStringSlice u cmd ''tcp'',
                Type = ServiceTypeLoadBalancer,
                ClusterIP = '''',
                NodePort = 0, ExternalName = '''',
                LoadBalancerIP = GetFlagString u cmd ''loadbalancerip'',
                Selector = GetFlagStringSlice u cmd ''selector''\<rparr>\<rparr> w)
   \<and> CreateServiceClusterIP (u\<lparr>UsageErrorf := e\<rparr>) f cmdOut cmd args w =
       CreateServiceClusterIP u f cmdOut cmd args w
   \<and> CreateServiceLoadBalancer (u\<lparr>UsageErrorf := e\<rparr>) f cmdOut cmd args w =
       CreateServiceLoadBalancer u f cmdOut cmd args w"
  by (simp add: CreateServiceClusterIP_def CreateServiceLoadBalancer_def split: sum.split)






section \<open>Properties of the config view command\<close>

lemma view_cli_simps:
  "GetFlagString view_cli = cli_GetFlagString"
  "FlagsSet view_cli = cli_FlagsSet"
  "ExtractCmdPrintOptions view_cli = (\<lambda>cmd generic. cli_GetFlagString cmd ''output'')"
  "PrinterForOptions view_cli = Inr"
  "NewVersionedPrinter view_cli = (\<lambda>printer. printer)"
  "GetStartingConfig view_cli = Inr"
  "MinifyConfig view_cli = Inr"
  "PrintObj view_cli = cli_PrintObj"
  by (simp_all add: view_cli_def)

text \<open>
  C10. When the \<open>output\<close> flag is empty, the closure writes the notice to the error
  stream and sets the flag to \<open>yaml\<close> before the print options are extracted. When
  the flag is \<open>wide\<close> or \<open>name\<close>, it writes a notice that says the format is reset to
  \<open>yaml\<close>, and goes on to print with the command as it was: the print options are
  extracted from a command whose \<open>output\<close> flag is still \<open>wide\<close> or \<open>name\<close>.
\<close>

theorem output_flag_reset_only_when_empty:
  "(GetFlagString u cmd ''output'' = '''' \<longrightarrow>
      Run_outputFormat u cmd errOut =
        (FlagsSet u cmd ''output'' ''yaml'',
         errOut @ ''Reset to default output format (yaml) as --output is empty'' @ [CHR 0x0A])
    \<and> NewCmdConfigView_Run u options cmd out errOut =
        Run_print u options (FlagsSet u cmd ''output'' ''yaml'') out
          (errOut @ ''Reset to default output format (yaml) as --output is empty''
             @ [CHR 0x0A]))
   \<and> (GetFlagString u cmd ''output'' = ''wide'' \<or> GetFlagString u cmd ''output'' = ''name'' \<longrightarrow>
      Run_outputFormat u cmd errOut =
        (cmd, errOut @ ''--output '' @ [CHR 0x27] @ GetFlagString u cmd ''output'' @ [CHR 0x27]
           @ '' is not available in pi config view; reset to default output format (yaml)''
           @ [CHR 0x0A, CHR 0x0A])
    \<and> GetFlagString u (fst (Run_outputFormat u cmd errOut)) ''output''
        = GetFlagString u cmd ''output''
    \<and> NewCmdConfigView_Run u options cmd out errOut =
        Run_print u options cmd out
          (errOut @ ''--output '' @ [CHR 0x27] @ GetFlagString u cmd ''output'' @ [CHR 0x27]
             @ '' is not available in pi config view; reset to default output format (yaml)''
             @ [CHR 0x0A, CHR 0x0A]))"
  by (auto simp add: Run_outputFormat_def NewCmdConfigView_Run_def Let_def
      notAvailableNotice_def emptyOutputNotice_def defaultOutputFormat_def)

theorem output_flag_reset_only_when_empty_witness:
  "GetFlagString view_cli [(''output'', FlagString '''')] ''output'' = ''''
   \<and> NewCmdConfigView_Run view_cli \<lparr>ConfigAccess = ''cfg'', Minify = False\<rparr>
        [(''output'', FlagString '''')] '''' '''' =
       (Returned, [(''output'', FlagString ''yaml''), (''output'', FlagString '''')],
        ''yaml: cfg'',
        ''Reset to default output format (yaml) as --output is empty'' @ [CHR 0x0A])
   \<and> GetFlagString view_cli [(''output'', FlagString ''wide'')] ''output'' = ''wide''
   \<and> NewCmdConfigView_Run view_cli \<lparr>ConfigAccess = ''cfg'', Minify = False\<rparr>
        [(''output'', FlagString ''wide'')] '''' '''' =
       (Returned, [(''output'', FlagString ''wide'')],
        ''wide: cfg'',
        ''--output '' @ [CHR 0x27] @ ''wide'' @ [CHR 0x27]
          @ '' is not available in pi config view; reset to default output format (yaml)''
          @ [CHR 0x0A, CHR 0x0A])"
  using output_flag_reset_only_when_empty [where u = view_cli
      and cmd = "[(''output'', FlagString '''')]" and errOut = "''''" and out = "''''"
      and options = "\<lparr>ConfigAccess = ''cfg'', Minify = False\<rparr>"]
    output_flag_reset_only_when_empty [where u = view_cli
      and cmd = "[(''output'', FlagString ''wide'')]" and errOut = "''''" and out = "''''"
      and options = "\<lparr>ConfigAccess = ''cfg'', Minify = False\<rparr>"]
  by (simp add: view_cli_simps cli_GetFlagString_def cli_FlagsSet_def cli_PrintObj_def
      Run_print_def Run_def loadConfig_def Validate_def getStartingConfig_def)

section \<open>Properties of the port-pair parser and the generators\<close>














lemma parsePortPairs_error: "parsePortPairs ss = Inl e \<Longrightarrow> e = InvalidPortSpec"
proof (induction ss)
  case Nil
  then show ?case by simp
next
  case (Cons s ss)
  then show ?case
    by (auto simp add: parsePortPair_def split: sum.splits option.splits prod.splits if_splits)
qed



text \<open>
  C3, as the generator of the specification has it. On a ClusterIP input whose
  ClusterIP parameter is \<open>None\<close>: when the name is valid and the port strings parse,
  \<open>Generate()\<close> succeeds with the headless object (the cluster-IP field holds the
  \<open>None\<close> sentinel, no address) and the ports as parsed; whenever it succeeds the
  object is headless; an invalid name fails with \<open>ValidationError\<close> and a port string
  that does not parse with \<open>InvalidPortSpec\<close>.
\<close>

theorem headless_when_generated:
  "ClusterIP g = ''None'' \<Longrightarrow>
     (validName (ServiceCommonGeneratorV1.Name g) \<and> parsePortPairs (TCP g) = Inr ports \<longrightarrow>
        GenerateClusterIP isIPv6Literal g =
          Inr \<lparr>objName = ServiceCommonGeneratorV1.Name g, objType = ServiceTypeClusterIP,
               objPorts = ports, objClusterIP = ClusterIPNone,
               objLoadBalancerIP = '''', objSelector = []\<rparr>)
   \<and> (GenerateClusterIP isIPv6Literal g = Inr obj \<longrightarrow>
        objClusterIP obj = ClusterIPNone \<and> objType obj = ServiceTypeClusterIP
        \<and> parsePortPairs (TCP g) = Inr (objPorts obj))
   \<and> (\<not> validName (ServiceCommonGeneratorV1.Name g) \<longrightarrow>
        GenerateClusterIP isIPv6Literal g = Inl (ValidationError ''Name''))
   \<and> (validName (ServiceCommonGeneratorV1.Name g) \<and> parsePortPairs (TCP g) = Inl e \<longrightarrow>
        GenerateClusterIP isIPv6Literal g = Inl InvalidPortSpec)"
proof (intro conjI impI)
  assume g: "ClusterIP g = ''None''"
  have G: "GenerateClusterIP isIPv6Literal g =
    (if \<not> validName (ServiceCommonGeneratorV1.Name g) then Inl (ValidationError ''Name'')
     else (case parsePortPairs (TCP g) of
        Inl e \<Rightarrow> Inl e
      | Inr ports \<Rightarrow>
          Inr \<lparr>objName = ServiceCommonGeneratorV1.Name g, objType = ServiceTypeClusterIP,
               objPorts = ports, objClusterIP = ClusterIPNone,
               objLoadBalancerIP = '''', objSelector = []\<rparr>))"
    using g by (simp add: GenerateClusterIP_def clusterIPField_def)
  {
    assume "validName (ServiceCommonGeneratorV1.Name g) \<and> parsePortPairs (TCP g) = Inr ports"
    then show "GenerateClusterIP isIPv6Literal g =
        Inr \<lparr>objName = ServiceCommonGeneratorV1.Name g, objType = ServiceTypeClusterIP,
             objPorts = ports, objClusterIP = ClusterIPNone,
             objLoadBalancerIP = '''', objSelector = []\<rparr>"
      by (simp add: G)
  }
  {
    assume o: "GenerateClusterIP isIPv6Literal g = Inr obj"
    then show "objClusterIP obj = ClusterIPNone"
      and "objType obj = ServiceTypeClusterIP"
      and "parsePortPairs (TCP g) = Inr (objPorts obj)"
      by (auto simp add: G split: if_splits sum.splits)
  }
  {
    assume "\<not> validName (ServiceCommonGeneratorV1.Name g)"
    then show "GenerateClusterIP isIPv6Literal g = Inl (ValidationError ''Name'')"
      by (simp add: G)
  }
  {
    assume a: "validName (ServiceCommonGeneratorV1.Name g) \<and> parsePortPairs (TCP g) = Inl e"
    then have "e = InvalidPortSpec" using parsePortPairs_error by blast
    with a show "GenerateClusterIP isIPv6Literal g = Inl InvalidPortSpec"
      by (simp add: G)
  }
qed

theorem headless_when_generated_witness:
  "ClusterIP \<lparr>ServiceCommonGeneratorV1.Name = ''my-cs'', TCP = [''5678:8080''],
      Type = ServiceTypeClusterIP, ClusterIP = ''None'', NodePort = 0, ExternalName = '''',
      LoadBalancerIP = '''', Selector = []\<rparr> = ''None''
   \<and> validName ''my-cs''
   \<and> parsePortPairs [''5678:8080''] =
       Inr [\<lparr>port = 5678, targetPort = NumericTarget 8080, protocol = ProtocolTCP\<rparr>]
   \<and> GenerateClusterIP noIPv6Literal
       \<lparr>ServiceCommonGeneratorV1.Name = ''my-cs'', TCP = [''5678:8080''],
        Type = ServiceTypeClusterIP, ClusterIP = ''None'', NodePort = 0, ExternalName = '''',
        LoadBalancerIP = '''', Selector = []\<rparr> =
       Inr \<lparr>objName = ''my-cs'', objType = ServiceTypeClusterIP,
            objPorts = [\<lparr>port = 5678, targetPort = NumericTarget 8080,
                         protocol = ProtocolTCP\<rparr>],
            objClusterIP = ClusterIPNone, objLoadBalancerIP = '''', objSelector = []\<rparr>
   \<and> \<not> validName ''My_CS''
   \<and> GenerateClusterIP noIPv6Literal
       \<lparr>ServiceCommonGeneratorV1.Name = ''My_CS'', TCP = [''5678:8080''],
        Type = ServiceTypeClusterIP, ClusterIP = ''None'', NodePort = 0, ExternalName = '''',
        LoadBalancerIP = '''', Selector = []\<rparr> = Inl (ValidationError ''Name'')
   \<and> parsePortPairs [''http''] = Inl InvalidPortSpec
   \<and> GenerateClusterIP noIPv6Literal
       \<lparr>ServiceCommonGeneratorV1.Name = ''my-cs'', TCP = [''http''],
        Type = ServiceTypeClusterIP, ClusterIP = ''None'', NodePort = 0, ExternalName = '''',
        LoadBalancerIP = '''', Selector = []\<rparr> = Inl InvalidPortSpec"
proof -
  let ?g = "\<lparr>ServiceCommonGeneratorV1.Name = ''my-cs'', TCP = [''5678:8080''],
    Type = ServiceTypeClusterIP, ClusterIP = ''None'', NodePort = 0,
    ExternalName = '''', LoadBalancerIP = '''', Selector = []\<rparr>"
  let ?badName = "\<lparr>ServiceCommonGeneratorV1.Name = ''My_CS'', TCP = [''5678:8080''],
    Type = ServiceTypeClusterIP, ClusterIP = ''None'', NodePort = 0,
    ExternalName = '''', LoadBalancerIP = '''', Selector = []\<rparr>"
  let ?badPort = "\<lparr>ServiceCommonGeneratorV1.Name = ''my-cs'', TCP = [''http''],
    Type = ServiceTypeClusterIP, ClusterIP = ''None'', NodePort = 0,
    ExternalName = '''', LoadBalancerIP = '''', Selector = []\<rparr>"
  let ?ports = "[\<lparr>port = 5678, targetPort = NumericTarget 8080, protocol = ProtocolTCP\<rparr>]"
  have n: "validName ''my-cs''"
    by (simp add: validName_def lowerAlnum_def)
  have p: "parsePortPairs [''5678:8080''] = Inr ?ports"
    by (simp add: parsePortPair_def parseInt_def digitVal_def parseTarget_def)
  have bn: "\<not> validName ''My_CS''"
    by (simp add: validName_def lowerAlnum_def)
  have bp: "parsePortPairs [''http''] = Inl InvalidPortSpec"
    by (simp add: parsePortPair_def parseInt_def digitVal_def)
  have ip: "ClusterIP ?g = ''None''" "ClusterIP ?badName = ''None''"
    "ClusterIP ?badPort = ''None''"
    by simp_all
  have 1: "GenerateClusterIP noIPv6Literal ?g =
      Inr \<lparr>objName = ''my-cs'', objType = ServiceTypeClusterIP,
           objPorts = ?ports, objClusterIP = ClusterIPNone,
           objLoadBalancerIP = '''', objSelector = []\<rparr>"
    using headless_when_generated [OF ip(1), where ports = ?ports and isIPv6Literal = noIPv6Literal,
        THEN conjunct1] n p by simp
  have 2: "GenerateClusterIP noIPv6Literal ?badName = Inl (ValidationError ''Name'')"
    using headless_when_generated [OF ip(2), where isIPv6Literal = noIPv6Literal,
        THEN conjunct2, THEN conjunct2, THEN conjunct1] bn by simp
  have 3: "GenerateClusterIP noIPv6Literal ?badPort = Inl InvalidPortSpec"
    using headless_when_generated [OF ip(3), where isIPv6Literal = noIPv6Literal and e = InvalidPortSpec,
        THEN conjunct2, THEN conjunct2, THEN conjunct2] n bp by simp
  show ?thesis
    using ip(1) n p 1 bn 2 bp 3 by blast
qed

text \<open>
  The claim as it is worded promises success for every input: a port string that does
  not parse and a name outside the naming pattern both make \<open>Generate()\<close> fail.
\<close>

theorem headless_counterexample:
  "GenerateClusterIP noIPv6Literal
     \<lparr>ServiceCommonGeneratorV1.Name = ''my-cs'', TCP = [''http''],
      Type = ServiceTypeClusterIP, ClusterIP = ''None'', NodePort = 0, ExternalName = '''',
      LoadBalancerIP = '''', Selector = []\<rparr> = Inl InvalidPortSpec
   \<and> GenerateClusterIP noIPv6Literal
     \<lparr>ServiceCommonGeneratorV1.Name = ''My_CS'', TCP = [''5678:8080''],
      Type = ServiceTypeClusterIP, ClusterIP = ''None'', NodePort = 0, ExternalName = '''',
      LoadBalancerIP = '''', Selector = []\<rparr> = Inl (ValidationError ''Name'')"
  by (simp add: GenerateClusterIP_def clusterIPField_def validName_def
      lowerAlnum_def parsePortPair_def parseInt_def digitVal_def)

text \<open>
  C5. The LoadBalancer generator on \<open>name = my-lbs\<close>, \<open>tcp = [5678:8080]\<close>,
  \<open>loadbalancerip = 1.2.3.4\<close> and \<open>selector = [role=web, zone=us-a]\<close> (the generator
  the LoadBalancer command builds from these flags) produces an object with both
  selector keys and the load-balancer IP \<open>1.2.3.4\<close>, whatever the check of IPv6
  literals is.
\<close>

theorem loadbalancer_scenario:
  "GenerateLoadBalancer isIPv6Literal
     \<lparr>ServiceCommonGeneratorV1.Name = ''my-lbs'', TCP = [''5678:8080''],
      Type = ServiceTypeLoadBalancer, ClusterIP = '''', NodePort = 0, ExternalName = '''',
      LoadBalancerIP = ''1.2.3.4'', Selector = [''role=web'', ''zone=us-a'']\<rparr> =
   Inr \<lparr>objName = ''my-lbs'', objType = ServiceTypeLoadBalancer,
        objPorts = [\<lparr>port = 5678, targetPort = NumericTarget 8080, protocol = ProtocolTCP\<rparr>],
        objClusterIP = ClusterIPUnassigned,
        objLoadBalancerIP = ''1.2.3.4'',
        objSelector = [(''role'', ''web''), (''zone'', ''us-a'')]\<rparr>"
proof -
  let ?g = "\<lparr>ServiceCommonGeneratorV1.Name = ''my-lbs'', TCP = [''5678:8080''],
    Type = ServiceTypeLoadBalancer, ClusterIP = '''', NodePort = 0, ExternalName = '''',
    LoadBalancerIP = ''1.2.3.4'', Selector = [''role=web'', ''zone=us-a'']\<rparr>"
  have n: "validName ''my-lbs''"
    by (simp add: validName_def lowerAlnum_def)
  have p: "parsePortPairs [''5678:8080''] =
      Inr [\<lparr>port = 5678, targetPort = NumericTarget 8080, protocol = ProtocolTCP\<rparr>]"
    by (simp add: parsePortPair_def parseInt_def digitVal_def parseTarget_def)
  have i: "isIPv4 ''1.2.3.4''"
    by (simp add: isIPv4_def isOctet_def digitVal_def)
  have s: "parseSelector [''role=web'', ''zone=us-a''] [] =
      Inr [(''role'', ''web''), (''zone'', ''us-a'')]"
    by simp
  have c: "GenerateClusterIP isIPv6Literal ?g =
      Inr \<lparr>objName = ''my-lbs'', objType = ServiceTypeClusterIP,
           objPorts = [\<lparr>port = 5678, targetPort = NumericTarget 8080,
                        protocol = ProtocolTCP\<rparr>],
           objClusterIP = ClusterIPUnassigned,
           objLoadBalancerIP = '''', objSelector = []\<rparr>"
    by (simp add: GenerateClusterIP_def clusterIPField_def n p del: parsePortPairs.simps)
  show ?thesis
    by (simp add: GenerateLoadBalancer_def c validIP_def i s del: parseSelector.simps)
qed

end
